theory Spec2Isabelle
  imports Complex_Main "HOL-Library.Char_ord" "HOL-Library.List_Lexorder"
begin

section \<open>Document nodes and Python's failing operations\<close>

text \<open>
  The records of \<^verbatim>\<open>strainminer_logging\<close> are converted to and from the values that
  \<^verbatim>\<open>yaml.safe_load\<close> and \<^verbatim>\<open>yaml.dump\<close> handle: \<^verbatim>\<open>None\<close>, booleans, integers,
  floats, strings, lists and dictionaries. A dictionary is kept as an association list
  in insertion order (Python dictionaries iterate in insertion order); its keys are
  strings, the only keys the schema ever looks up. A finite float is kept as the exact
  rational it denotes: no operation of the modelled code depends on rounding. The three
  floats that are no number, not-a-number and the two infinities, are values of their own:
  NumPy's division returns them on a zero divisor.
\<close>

datatype pyval =
    VNone
  | VBool bool
  | VInt int
  | VFloat rat
  | VNaN
  | VPosInf
  | VNegInf
  | VStr string
  | VList "pyval list"
  | VDict "(string \<times> pyval) list"

text \<open>
  The exceptions the modelled code can raise. \<^verbatim>\<open>KeyError\<close> carries the missing key, as
  Python's does. There is no \<^verbatim>\<open>ZeroDivisionError\<close> among them: the one division of the
  code is NumPy's, which raises nothing.
\<close>

datatype error =
    KeyError string
  | TypeError
  | ValueError

text \<open>
  An exception propagates through every enclosing call: \<open>and_then r f\<close> runs \<open>f\<close> on
  the value of \<open>r\<close>, unless \<open>r\<close> raised.
\<close>

fun and_then :: "error + 'a \<Rightarrow> ('a \<Rightarrow> error + 'b) \<Rightarrow> error + 'b" where
  "and_then (Inl e) f = Inl e"
| "and_then (Inr x) f = f x"

text \<open>
  \<^verbatim>\<open>d[key]\<close> with a string key: a dictionary raises \<^verbatim>\<open>KeyError(key)\<close> when the key is
  missing; a list or a string rejects a string index and \<^verbatim>\<open>None\<close>, a boolean or a number
  is not subscriptable, all with \<^verbatim>\<open>TypeError\<close>.
\<close>

fun getitem :: "pyval \<Rightarrow> string \<Rightarrow> error + pyval" where
  "getitem (VDict kvs) key =
     (case map_of kvs key of None \<Rightarrow> Inl (KeyError key) | Some v \<Rightarrow> Inr v)"
| "getitem _ key = Inl TypeError"

text \<open>
  \<^verbatim>\<open>for x in v\<close>: a list yields its elements, a dictionary its keys, a string its
  characters as one-character strings; nothing else is iterable.
\<close>

fun py_iter :: "pyval \<Rightarrow> error + pyval list" where
  "py_iter (VList xs) = Inr xs"
| "py_iter (VDict kvs) = Inr (map (\<lambda>kv. VStr (fst kv)) kvs)"
| "py_iter (VStr s) = Inr (map (\<lambda>c. VStr [c]) s)"
| "py_iter _ = Inl TypeError"

text \<open>
  \<^verbatim>\<open>list(f(x) for x in xs)\<close> and \<^verbatim>\<open>[f(x) for x in xs]\<close>: the elements are converted from
  left to right and the first exception ends the loop.
\<close>

fun traverse :: "('a \<Rightarrow> error + 'b) \<Rightarrow> 'a list \<Rightarrow> error + 'b list" where
  "traverse f [] = Inr []"
| "traverse f (x # xs) =
     and_then (f x) (\<lambda>y. and_then (traverse f xs) (\<lambda>ys. Inr (y # ys)))"

text \<open>\<^verbatim>\<open>list(d.keys())\<close> of a dictionary node.\<close>

fun dict_keys :: "pyval \<Rightarrow> string list" where
  "dict_keys (VDict kvs) = map fst kvs"
| "dict_keys _ = []"

section \<open>binmatrix.py\<close>

text \<open>
  \<^verbatim>\<open>BinMatrixStats.__init__\<close> stores its six arguments as they come, and \<^verbatim>\<open>from_dict\<close>
  passes it the values of the node unchecked: the fields hold document values. The field
  names are those of the class, prefixed (\<open>bms_\<close>) because other classes reuse them.
\<close>

record BinMatrixStats =
  bms_number_of_rows :: pyval
  bms_number_of_columns :: pyval
  bms_number_of_ones :: pyval
  bms_number_of_zeros :: pyval
  bms_density :: pyval
  bms_sparsity :: pyval

definition BinMatrixStats_from_dict :: "pyval \<Rightarrow> error + BinMatrixStats" where
  "BinMatrixStats_from_dict bin_matrix_stats_dict =
     and_then (getitem bin_matrix_stats_dict ''number_of_rows'') (\<lambda>r.
     and_then (getitem bin_matrix_stats_dict ''number_of_columns'') (\<lambda>c.
     and_then (getitem bin_matrix_stats_dict ''number_of_ones'') (\<lambda>n1.
     and_then (getitem bin_matrix_stats_dict ''number_of_zeros'') (\<lambda>n0.
     and_then (getitem bin_matrix_stats_dict ''density'') (\<lambda>d.
     and_then (getitem bin_matrix_stats_dict ''sparsity'') (\<lambda>s.
       Inr \<lparr>bms_number_of_rows = r, bms_number_of_columns = c,
            bms_number_of_ones = n1, bms_number_of_zeros = n0,
            bms_density = d, bms_sparsity = s\<rparr>))))))"

definition BinMatrixStats_to_dict :: "BinMatrixStats \<Rightarrow> pyval" where
  "BinMatrixStats_to_dict self =
     VDict [(''number_of_rows'', bms_number_of_rows self),
            (''number_of_columns'', bms_number_of_columns self),
            (''number_of_ones'', bms_number_of_ones self),
            (''number_of_zeros'', bms_number_of_zeros self),
            (''density'', bms_density self),
            (''sparsity'', bms_sparsity self)]"

text \<open>
  The data frame that \<^verbatim>\<open>from_bin_dataframe\<close> reads comes from pandas. Of it the function
  uses \<^verbatim>\<open>df.shape\<close> and the cells, column by column: \<^verbatim>\<open>(df == 1).sum()\<close> counts the cells
  equal to 1 in each column and the second \<^verbatim>\<open>.sum()\<close> adds the column counts. A cell is
  an integer; a boolean cell is 1 or 0 (\<^verbatim>\<open>True == 1\<close> in Python and in pandas).
\<close>

record DataFrame =
  shape0 :: nat
  shape1 :: nat
  df_columns :: "int list list"

text \<open>A frame is rectangular: \<^verbatim>\<open>shape[1]\<close> columns of \<^verbatim>\<open>shape[0]\<close> cells each.\<close>

definition rectangular :: "DataFrame \<Rightarrow> bool" where
  "rectangular df \<longleftrightarrow>
     length (df_columns df) = shape1 df \<and>
     list_all (\<lambda>col. length col = shape0 df) (df_columns df)"

text \<open>\<^verbatim>\<open>(df == v).sum().sum()\<close>\<close>

definition eq_sum_sum :: "DataFrame \<Rightarrow> int \<Rightarrow> int" where
  "eq_sum_sum df v =
     sum_list (map (\<lambda>col. sum_list (map (\<lambda>x. if x = v then 1 else 0) col)) (df_columns df))"

text \<open>
  \<^verbatim>\<open>a / b\<close> where \<open>a\<close> is a count. The counts are what \<^verbatim>\<open>.sum().sum()\<close> returns, integers
  of NumPy, and the division of a NumPy number by a Python integer is NumPy's: it returns
  the quotient as a float and never raises. On a zero divisor it returns not-a-number
  for \<open>0 / 0\<close> and an infinity with the sign of \<open>a\<close> otherwise, and emits a
  \<^verbatim>\<open>RuntimeWarning\<close>, which is no exception.
\<close>

definition np_truediv :: "int \<Rightarrow> int \<Rightarrow> pyval" where
  "np_truediv a b =
     (if b = 0 then (if a = 0 then VNaN else if 0 < a then VPosInf else VNegInf)
      else VFloat (Fract a b))"

text \<open>
  No step of \<^verbatim>\<open>from_bin_dataframe\<close> raises; its result is in the type of the other
  constructing class methods.
\<close>

definition from_bin_dataframe :: "DataFrame \<Rightarrow> error + BinMatrixStats" where
  "from_bin_dataframe df =
     (let number_of_ones = eq_sum_sum df 1;
          number_of_zeros = eq_sum_sum df 0;
          number_of_cells = int (shape0 df) * int (shape1 df)
      in Inr \<lparr>bms_number_of_rows = VInt (int (shape0 df)),
              bms_number_of_columns = VInt (int (shape1 df)),
              bms_number_of_ones = VInt number_of_ones,
              bms_number_of_zeros = VInt number_of_zeros,
              bms_density = np_truediv number_of_ones number_of_cells,
              bms_sparsity = np_truediv number_of_zeros number_of_cells\<rparr>)"

section \<open>strips/bipart.py\<close>

datatype BiPartClass = ZERO | ONE

text \<open>The \<^verbatim>\<open>value\<close> of an enumeration member.\<close>

fun BiPartClass_value :: "BiPartClass \<Rightarrow> int" where
  "BiPartClass_value ZERO = 0"
| "BiPartClass_value ONE = 1"

text \<open>
  Python's \<^verbatim>\<open>v == n\<close> for an integer \<open>n\<close>: numbers compare by value across
  \<^verbatim>\<open>bool\<close>, \<^verbatim>\<open>int\<close> and \<^verbatim>\<open>float\<close>, anything else differs from a number.
\<close>

fun py_eq_int :: "pyval \<Rightarrow> int \<Rightarrow> bool" where
  "py_eq_int (VInt i) n = (i = n)"
| "py_eq_int (VBool b) n = ((if b then 1 else 0) = n)"
| "py_eq_int (VFloat q) n = (q = of_int n)"
| "py_eq_int _ n = False"

text \<open>
  \<^verbatim>\<open>BiPartClass(v)\<close>: the member whose value equals \<open>v\<close>, \<^verbatim>\<open>ValueError\<close> when there
  is none.
\<close>

definition BiPartClass_call :: "pyval \<Rightarrow> error + BiPartClass" where
  "BiPartClass_call v =
     (if py_eq_int v (BiPartClass_value ZERO) then Inr ZERO
      else if py_eq_int v (BiPartClass_value ONE) then Inr ONE
      else Inl ValueError)"

definition complement :: "BiPartClass \<Rightarrow> error + BiPartClass" where
  "complement self = BiPartClass_call (VInt (1 - BiPartClass_value self))"

record BiPartStats =
  bp_index :: pyval
  bp_bipart_class :: BiPartClass
  bp_binmatrix_stats :: BinMatrixStats

definition BiPartStats_from_dict :: "pyval \<Rightarrow> error + BiPartStats" where
  "BiPartStats_from_dict d =
     and_then (getitem d ''index'') (\<lambda>i.
     and_then (getitem d ''class'') (\<lambda>cv.
     and_then (BiPartClass_call cv) (\<lambda>c.
     and_then (getitem d ''binmatrix_stats'') (\<lambda>bv.
     and_then (BinMatrixStats_from_dict bv) (\<lambda>b.
       Inr \<lparr>bp_index = i, bp_bipart_class = c, bp_binmatrix_stats = b\<rparr>)))))"

definition BiPartStats_to_dict :: "BiPartStats \<Rightarrow> pyval" where
  "BiPartStats_to_dict self =
     VDict [(''index'', bp_index self),
            (''class'', VInt (BiPartClass_value (bp_bipart_class self))),
            (''binmatrix_stats'', BinMatrixStats_to_dict (bp_binmatrix_stats self))]"

section \<open>strips/qbc.py\<close>

record UnassignedReadStats =
  ur_read_id :: pyval
  ur_number_of_ones :: pyval
  ur_numbers_of_zeros :: pyval

definition UnassignedReadStats_from_dict :: "pyval \<Rightarrow> error + UnassignedReadStats" where
  "UnassignedReadStats_from_dict d =
     and_then (getitem d ''read_id'') (\<lambda>i.
     and_then (getitem d ''number_of_ones'') (\<lambda>n1.
     and_then (getitem d ''number_of_zeros'') (\<lambda>n0.
       Inr \<lparr>ur_read_id = i, ur_number_of_ones = n1, ur_numbers_of_zeros = n0\<rparr>)))"

definition UnassignedReadStats_to_dict :: "UnassignedReadStats \<Rightarrow> pyval" where
  "UnassignedReadStats_to_dict self =
     VDict [(''read_id'', ur_read_id self),
            (''number_of_ones'', ur_number_of_ones self),
            (''number_of_zeros'', ur_numbers_of_zeros self)]"

record QBCStripStats =
  qbcs_index :: pyval
  qbcs_number_of_columns :: pyval
  qbcs_bipart_stats :: "BiPartStats list"
  qbcs_unassigned_reads :: "UnassignedReadStats list"

text \<open>
  \<^verbatim>\<open>QBCStripStats.from_dict\<close> hands two generator expressions to the constructor. The
  four arguments are evaluated first, so all four keys are looked up (and the two
  sequences opened) before the constructor runs the generators, the bi-partitions and
  then the unassigned reads.
\<close>

definition QBCStripStats_from_dict :: "pyval \<Rightarrow> error + QBCStripStats" where
  "QBCStripStats_from_dict d =
     and_then (getitem d ''index'') (\<lambda>i.
     and_then (getitem d ''number_of_columns'') (\<lambda>n.
     and_then (getitem d ''bipart_stats'') (\<lambda>bv.
     and_then (py_iter bv) (\<lambda>bs.
     and_then (getitem d ''unassigned_reads'') (\<lambda>uv.
     and_then (py_iter uv) (\<lambda>us.
     and_then (traverse BiPartStats_from_dict bs) (\<lambda>all_bipart_stats.
     and_then (traverse UnassignedReadStats_from_dict us) (\<lambda>unassigned_reads.
       Inr \<lparr>qbcs_index = i, qbcs_number_of_columns = n,
            qbcs_bipart_stats = all_bipart_stats,
            qbcs_unassigned_reads = unassigned_reads\<rparr>))))))))"

definition QBCStripStats_number_of_biparts :: "QBCStripStats \<Rightarrow> nat" where
  "QBCStripStats_number_of_biparts self = length (qbcs_bipart_stats self)"

definition QBCStripStats_number_of_unassigned_reads :: "QBCStripStats \<Rightarrow> nat" where
  "QBCStripStats_number_of_unassigned_reads self = length (qbcs_unassigned_reads self)"

text \<open>The methods that assign to the object return the object after the assignment.\<close>

definition QBCStripStats_set_number_of_columns :: "QBCStripStats \<Rightarrow> pyval \<Rightarrow> QBCStripStats" where
  "QBCStripStats_set_number_of_columns self number_of_columns =
     self\<lparr>qbcs_number_of_columns := number_of_columns\<rparr>"

definition QBCStripStats_add_bipart_stats :: "QBCStripStats \<Rightarrow> BiPartStats \<Rightarrow> QBCStripStats" where
  "QBCStripStats_add_bipart_stats self bipart_stats =
     self\<lparr>qbcs_bipart_stats := qbcs_bipart_stats self @ [bipart_stats]\<rparr>"

definition QBCStripStats_add_unassigned_read ::
    "QBCStripStats \<Rightarrow> UnassignedReadStats \<Rightarrow> QBCStripStats" where
  "QBCStripStats_add_unassigned_read self unassigned_read =
     self\<lparr>qbcs_unassigned_reads := qbcs_unassigned_reads self @ [unassigned_read]\<rparr>"

definition QBCStripStats_to_dict :: "QBCStripStats \<Rightarrow> pyval" where
  "QBCStripStats_to_dict self =
     VDict [(''index'', qbcs_index self),
            (''number_of_columns'', qbcs_number_of_columns self),
            (''bipart_stats'', VList (map BiPartStats_to_dict (qbcs_bipart_stats self))),
            (''unassigned_reads'',
               VList (map UnassignedReadStats_to_dict (qbcs_unassigned_reads self)))]"

record QBCTrashStripStats =
  trash_index :: pyval
  trash_matrix_stats :: BinMatrixStats

definition QBCTrashStripStats_from_dict :: "pyval \<Rightarrow> error + QBCTrashStripStats" where
  "QBCTrashStripStats_from_dict d =
     and_then (getitem d ''index'') (\<lambda>i.
     and_then (getitem d ''matrix_stats'') (\<lambda>mv.
     and_then (BinMatrixStats_from_dict mv) (\<lambda>m.
       Inr \<lparr>trash_index = i, trash_matrix_stats = m\<rparr>)))"

definition QBCTrashStripStats_to_dict :: "QBCTrashStripStats \<Rightarrow> pyval" where
  "QBCTrashStripStats_to_dict self =
     VDict [(''index'', trash_index self),
            (''matrix_stats'', BinMatrixStats_to_dict (trash_matrix_stats self))]"

text \<open>
  Every collection class wraps one Python list, filled in the order of the iterable it
  is built from; \<^verbatim>\<open>append\<close> and \<^verbatim>\<open>extend\<close> add at the end.
\<close>

type_synonym QBCStripStatsCollection = "QBCStripStats list"

definition collection_append :: "'a list \<Rightarrow> 'a \<Rightarrow> 'a list" where
  "collection_append self x = self @ [x]"

definition collection_extend :: "'a list \<Rightarrow> 'a list \<Rightarrow> 'a list" where
  "collection_extend self xs = self @ xs"

definition QBCStripStatsCollection_from_dicts :: "pyval \<Rightarrow> error + QBCStripStatsCollection" where
  "QBCStripStatsCollection_from_dicts strips_stats =
     and_then (py_iter strips_stats) (traverse QBCStripStats_from_dict)"

definition QBCStripStatsCollection_to_dicts :: "QBCStripStatsCollection \<Rightarrow> pyval" where
  "QBCStripStatsCollection_to_dicts self = VList (map QBCStripStats_to_dict self)"

text \<open>
  \<^verbatim>\<open>X.from_dict(d[key]) if d[key] is not None else None\<close>: the condition is evaluated
  first, so a missing key raises there; the key is read again for the conversion.
\<close>

definition from_dict_if_not_None ::
    "(pyval \<Rightarrow> error + 'a) \<Rightarrow> pyval \<Rightarrow> string \<Rightarrow> error + 'a option" where
  "from_dict_if_not_None from_dict d key =
     and_then (getitem d key) (\<lambda>c.
       if c \<noteq> VNone
       then and_then (getitem d key) (\<lambda>v. and_then (from_dict v) (\<lambda>x. Inr (Some x)))
       else Inr None)"

text \<open>\<^verbatim>\<open>x.to_dict() if x is not None else None\<close>\<close>

definition to_dict_if_not_None :: "('a \<Rightarrow> pyval) \<Rightarrow> 'a option \<Rightarrow> pyval" where
  "to_dict_if_not_None to_dict x = (case x of Some y \<Rightarrow> to_dict y | None \<Rightarrow> VNone)"

record QBCProcessStats =
  qbc_high_quality_strips_stats :: QBCStripStatsCollection
  qbc_trash_strip_stats :: "QBCTrashStripStats option"

definition QBCProcessStats_from_dict :: "pyval \<Rightarrow> error + QBCProcessStats" where
  "QBCProcessStats_from_dict d =
     and_then (getitem d ''high_quality_strips_stats'') (\<lambda>hv.
     and_then (QBCStripStatsCollection_from_dicts hv) (\<lambda>h.
     and_then (from_dict_if_not_None QBCTrashStripStats_from_dict d ''trash_strip_stats'') (\<lambda>t.
       Inr \<lparr>qbc_high_quality_strips_stats = h, qbc_trash_strip_stats = t\<rparr>)))"

definition QBCProcessStats_to_dict :: "QBCProcessStats \<Rightarrow> pyval" where
  "QBCProcessStats_to_dict self =
     VDict [(''high_quality_strips_stats'',
               QBCStripStatsCollection_to_dicts (qbc_high_quality_strips_stats self)),
            (''trash_strip_stats'',
               to_dict_if_not_None QBCTrashStripStats_to_dict (qbc_trash_strip_stats self))]"

section \<open>strips/hca.py\<close>

type_synonym HCAPreStripStatsCollection = "BinMatrixStats list"

definition HCAPreStripStatsCollection_from_dicts ::
    "pyval \<Rightarrow> error + HCAPreStripStatsCollection" where
  "HCAPreStripStatsCollection_from_dicts dicts =
     and_then (py_iter dicts) (traverse BinMatrixStats_from_dict)"

definition HCAPreStripStatsCollection_to_dicts :: "HCAPreStripStatsCollection \<Rightarrow> pyval" where
  "HCAPreStripStatsCollection_to_dicts self = VList (map BinMatrixStats_to_dict self)"

record LowQualityHCAStripStats =
  lq_strip_number :: pyval
  lq_number_of_columns :: pyval
  lq_bin_matrices_stats :: "BinMatrixStats list"

definition LowQualityHCAStripStats_from_dict :: "pyval \<Rightarrow> error + LowQualityHCAStripStats" where
  "LowQualityHCAStripStats_from_dict dict0 =
     and_then (getitem dict0 ''strip_number'') (\<lambda>sn.
     and_then (getitem dict0 ''number_of_columns'') (\<lambda>n.
     and_then (getitem dict0 ''bin_matrices_stats'') (\<lambda>bv.
     and_then (py_iter bv) (\<lambda>bs.
     and_then (traverse BinMatrixStats_from_dict bs) (\<lambda>bin_matrices_stats.
       Inr \<lparr>lq_strip_number = sn, lq_number_of_columns = n,
            lq_bin_matrices_stats = bin_matrices_stats\<rparr>)))))"

definition LowQualityHCAStripStats_to_dict :: "LowQualityHCAStripStats \<Rightarrow> pyval" where
  "LowQualityHCAStripStats_to_dict self =
     VDict [(''strip_number'', lq_strip_number self),
            (''number_of_columns'', lq_number_of_columns self),
            (''bin_matrices_stats'',
               VList (map BinMatrixStats_to_dict (lq_bin_matrices_stats self)))]"

type_synonym LowQualityHCAStripStatsCollection = "LowQualityHCAStripStats list"

definition LowQualityHCAStripStatsCollection_from_dicts ::
    "pyval \<Rightarrow> error + LowQualityHCAStripStatsCollection" where
  "LowQualityHCAStripStatsCollection_from_dicts dicts =
     and_then (py_iter dicts) (traverse LowQualityHCAStripStats_from_dict)"

definition LowQualityHCAStripStatsCollection_to_dicts ::
    "LowQualityHCAStripStatsCollection \<Rightarrow> pyval" where
  "LowQualityHCAStripStatsCollection_to_dicts self =
     VList (map LowQualityHCAStripStats_to_dict self)"

record HCAStripStats =
  hcas_index :: pyval
  hcas_number_of_columns :: pyval
  hcas_bipart_stats :: "BiPartStats list"

text \<open>
  As in \<^verbatim>\<open>QBCStripStats.from_dict\<close>, the three keys are looked up before the constructor
  runs the generator over the bi-partitions.
\<close>

definition HCAStripStats_from_dict :: "pyval \<Rightarrow> error + HCAStripStats" where
  "HCAStripStats_from_dict d =
     and_then (getitem d ''index'') (\<lambda>i.
     and_then (getitem d ''number_of_columns'') (\<lambda>n.
     and_then (getitem d ''bipart_stats'') (\<lambda>bv.
     and_then (py_iter bv) (\<lambda>bs.
     and_then (traverse BiPartStats_from_dict bs) (\<lambda>all_bipart_stats.
       Inr \<lparr>hcas_index = i, hcas_number_of_columns = n,
            hcas_bipart_stats = all_bipart_stats\<rparr>)))))"

definition HCAStripStats_set_number_of_columns :: "HCAStripStats \<Rightarrow> pyval \<Rightarrow> HCAStripStats" where
  "HCAStripStats_set_number_of_columns self number_of_columns =
     self\<lparr>hcas_number_of_columns := number_of_columns\<rparr>"

definition HCAStripStats_add_bipart_stats :: "HCAStripStats \<Rightarrow> BiPartStats \<Rightarrow> HCAStripStats" where
  "HCAStripStats_add_bipart_stats self bipart_stats =
     self\<lparr>hcas_bipart_stats := hcas_bipart_stats self @ [bipart_stats]\<rparr>"

definition HCAStripStats_to_dict :: "HCAStripStats \<Rightarrow> pyval" where
  "HCAStripStats_to_dict self =
     VDict [(''index'', hcas_index self),
            (''number_of_columns'', hcas_number_of_columns self),
            (''bipart_stats'', VList (map BiPartStats_to_dict (hcas_bipart_stats self)))]"

type_synonym HCAStripStatsCollection = "HCAStripStats list"

definition HCAStripStatsCollection_from_dicts :: "pyval \<Rightarrow> error + HCAStripStatsCollection" where
  "HCAStripStatsCollection_from_dicts strips_stats =
     and_then (py_iter strips_stats) (traverse HCAStripStats_from_dict)"

definition HCAStripStatsCollection_to_dicts :: "HCAStripStatsCollection \<Rightarrow> pyval" where
  "HCAStripStatsCollection_to_dicts self = VList (map HCAStripStats_to_dict self)"

record HCAProcessStats =
  low_quality_prestrips_stats :: HCAPreStripStatsCollection
  high_quality_prestrips_stats :: HCAPreStripStatsCollection
  low_quality_hca_strip_stats :: LowQualityHCAStripStatsCollection
  high_quality_hca_strip_stats :: HCAStripStatsCollection

definition HCAProcessStats_from_dict :: "pyval \<Rightarrow> error + HCAProcessStats" where
  "HCAProcessStats_from_dict process_stats =
     and_then (getitem process_stats ''low_quality_prestrips_stats'') (\<lambda>v1.
     and_then (HCAPreStripStatsCollection_from_dicts v1) (\<lambda>lp.
     and_then (getitem process_stats ''high_quality_prestrips_stats'') (\<lambda>v2.
     and_then (HCAPreStripStatsCollection_from_dicts v2) (\<lambda>hp.
     and_then (getitem process_stats ''low_quality_hca_strip_stats'') (\<lambda>v3.
     and_then (LowQualityHCAStripStatsCollection_from_dicts v3) (\<lambda>ls.
     and_then (getitem process_stats ''high_quality_hca_strip_stats'') (\<lambda>v4.
     and_then (HCAStripStatsCollection_from_dicts v4) (\<lambda>hs.
       Inr \<lparr>low_quality_prestrips_stats = lp, high_quality_prestrips_stats = hp,
            low_quality_hca_strip_stats = ls, high_quality_hca_strip_stats = hs\<rparr>))))))))"

definition HCAProcessStats_to_dict :: "HCAProcessStats \<Rightarrow> pyval" where
  "HCAProcessStats_to_dict self =
     VDict [(''low_quality_prestrips_stats'',
               HCAPreStripStatsCollection_to_dicts (low_quality_prestrips_stats self)),
            (''high_quality_prestrips_stats'',
               HCAPreStripStatsCollection_to_dicts (high_quality_prestrips_stats self)),
            (''low_quality_hca_strip_stats'',
               LowQualityHCAStripStatsCollection_to_dicts (low_quality_hca_strip_stats self)),
            (''high_quality_hca_strip_stats'',
               HCAStripStatsCollection_to_dicts (high_quality_hca_strip_stats self))]"

section \<open>postprocess.py\<close>

record PostProcessStats =
  number_of_initial_haplotypes :: pyval
  number_of_low_quality_haplotypes :: pyval
  number_of_final_haplotypes :: pyval

definition PostProcessStats_from_dict :: "pyval \<Rightarrow> error + PostProcessStats" where
  "PostProcessStats_from_dict d =
     and_then (getitem d ''number_of_initial_haplotypes'') (\<lambda>a.
     and_then (getitem d ''number_of_low_quality_haplotypes'') (\<lambda>b.
     and_then (getitem d ''number_of_final_haplotypes'') (\<lambda>c.
       Inr \<lparr>number_of_initial_haplotypes = a, number_of_low_quality_haplotypes = b,
            number_of_final_haplotypes = c\<rparr>)))"

definition PostProcessStats_to_dict :: "PostProcessStats \<Rightarrow> pyval" where
  "PostProcessStats_to_dict self =
     VDict [(''number_of_initial_haplotypes'', number_of_initial_haplotypes self),
            (''number_of_low_quality_haplotypes'', number_of_low_quality_haplotypes self),
            (''number_of_final_haplotypes'', number_of_final_haplotypes self)]"

section \<open>loci\_window.py\<close>

record LociWindowStats =
  start_pos :: pyval
  stop_pos :: pyval

definition LociWindowStats_from_dict :: "pyval \<Rightarrow> error + LociWindowStats" where
  "LociWindowStats_from_dict dict0 =
     and_then (getitem dict0 ''start_pos'') (\<lambda>a.
     and_then (getitem dict0 ''stop_pos'') (\<lambda>b.
       Inr \<lparr>start_pos = a, stop_pos = b\<rparr>))"

definition LociWindowStats_to_dict :: "LociWindowStats \<Rightarrow> pyval" where
  "LociWindowStats_to_dict self =
     VDict [(''start_pos'', start_pos self), (''stop_pos'', stop_pos self)]"

record LociWindowProcessStats =
  loci_window_stats :: LociWindowStats
  hca_process_stats :: "HCAProcessStats option"
  qbc_process_stats :: "QBCProcessStats option"
  postprocess_stats :: "PostProcessStats option"

definition LociWindowProcessStats_from_dict :: "pyval \<Rightarrow> error + LociWindowProcessStats" where
  "LociWindowProcessStats_from_dict d =
     and_then (getitem d ''loci_window_stats'') (\<lambda>wv.
     and_then (LociWindowStats_from_dict wv) (\<lambda>w.
     and_then (from_dict_if_not_None HCAProcessStats_from_dict d ''hca_process_stats'') (\<lambda>h.
     and_then (from_dict_if_not_None QBCProcessStats_from_dict d ''qbc_process_stats'') (\<lambda>q.
     and_then (from_dict_if_not_None PostProcessStats_from_dict d ''postprocess_stats'') (\<lambda>p.
       Inr \<lparr>loci_window_stats = w, hca_process_stats = h,
            qbc_process_stats = q, postprocess_stats = p\<rparr>)))))"

definition LociWindowProcessStats_to_dict :: "LociWindowProcessStats \<Rightarrow> pyval" where
  "LociWindowProcessStats_to_dict self =
     VDict [(''loci_window_stats'', LociWindowStats_to_dict (loci_window_stats self)),
            (''hca_process_stats'',
               to_dict_if_not_None HCAProcessStats_to_dict (hca_process_stats self)),
            (''qbc_process_stats'',
               to_dict_if_not_None QBCProcessStats_to_dict (qbc_process_stats self)),
            (''postprocess_stats'',
               to_dict_if_not_None PostProcessStats_to_dict (postprocess_stats self))]"

type_synonym LociWindowStatsCollection = "LociWindowProcessStats list"

definition LociWindowStatsCollection_from_dicts ::
    "pyval \<Rightarrow> error + LociWindowStatsCollection" where
  "LociWindowStatsCollection_from_dicts dicts =
     and_then (py_iter dicts) (traverse LociWindowProcessStats_from_dict)"

definition LociWindowStatsCollection_to_dicts :: "LociWindowStatsCollection \<Rightarrow> pyval" where
  "LociWindowStatsCollection_to_dicts self = VList (map LociWindowProcessStats_to_dict self)"

section \<open>contig.py\<close>

record ContigStats =
  contig_name :: pyval
  contig_length :: pyval

definition ContigStats_from_dict :: "pyval \<Rightarrow> error + ContigStats" where
  "ContigStats_from_dict d =
     and_then (getitem d ''contig_name'') (\<lambda>n.
     and_then (getitem d ''contig_length'') (\<lambda>l.
       Inr \<lparr>contig_name = n, contig_length = l\<rparr>))"

definition ContigStats_to_dict :: "ContigStats \<Rightarrow> pyval" where
  "ContigStats_to_dict self =
     VDict [(''contig_name'', contig_name self), (''contig_length'', contig_length self)]"

record ContigProcessStats =
  contig_stats :: ContigStats
  loci_windows_stats :: LociWindowStatsCollection

text \<open>
  The keyword arguments of \<^verbatim>\<open>ContigProcessStats.from_dict\<close> are evaluated in the order
  written: the contig statistics are converted before the key of the windows is read.
\<close>

definition ContigProcessStats_from_dict :: "pyval \<Rightarrow> error + ContigProcessStats" where
  "ContigProcessStats_from_dict d =
     and_then (getitem d ''contig_stats'') (\<lambda>cv.
     and_then (ContigStats_from_dict cv) (\<lambda>c.
     and_then (getitem d ''loci_windows_stats'') (\<lambda>wv.
     and_then (LociWindowStatsCollection_from_dicts wv) (\<lambda>w.
       Inr \<lparr>contig_stats = c, loci_windows_stats = w\<rparr>))))"

definition ContigProcessStats_to_dict :: "ContigProcessStats \<Rightarrow> pyval" where
  "ContigProcessStats_to_dict self =
     VDict [(''contig_stats'', ContigStats_to_dict (contig_stats self)),
            (''loci_windows_stats'',
               LociWindowStatsCollection_to_dicts (loci_windows_stats self))]"

type_synonym ContigProcessStatsCollection = "ContigProcessStats list"

definition ContigProcessStatsCollection_from_dicts ::
    "pyval \<Rightarrow> error + ContigProcessStatsCollection" where
  "ContigProcessStatsCollection_from_dicts dicts =
     and_then (py_iter dicts) (traverse ContigProcessStats_from_dict)"

definition ContigProcessStatsCollection_to_dicts :: "ContigProcessStatsCollection \<Rightarrow> pyval" where
  "ContigProcessStatsCollection_to_dicts self = VList (map ContigProcessStats_to_dict self)"

section \<open>Reference notions for the matrix statistics\<close>

text \<open>
  What the specification counts on a boolean matrix, written independently of
  \<^verbatim>\<open>from_bin_dataframe\<close>: the cells of a frame, the number of cells holding a given value,
  and the frames whose cells are all 0 or 1.
\<close>

definition cells :: "DataFrame \<Rightarrow> int list" where
  "cells df = concat (df_columns df)"

definition count_cells :: "DataFrame \<Rightarrow> int \<Rightarrow> nat" where
  "count_cells df v = length (filter (\<lambda>x. x = v) (cells df))"

definition boolean_frame :: "DataFrame \<Rightarrow> bool" where
  "boolean_frame df \<longleftrightarrow> list_all (\<lambda>x. x = 0 \<or> x = 1) (cells df)"

section \<open>Round trips\<close>

lemma traverse_map_round_trip:
  assumes "\<And>x. from_dict (to_dict x) = Inr x"
  shows "traverse from_dict (map to_dict xs) = Inr xs"
  by (induction xs) (simp_all add: assms)

lemma BinMatrixStats_round_trip:
  "BinMatrixStats_from_dict (BinMatrixStats_to_dict x) = Inr x"
  by (simp add: BinMatrixStats_from_dict_def BinMatrixStats_to_dict_def)

lemma BiPartStats_round_trip:
  "BiPartStats_from_dict (BiPartStats_to_dict x) = Inr x"
  by (cases "bp_bipart_class x")
     (simp_all add: BiPartStats_from_dict_def BiPartStats_to_dict_def BiPartClass_call_def
        BinMatrixStats_round_trip)

lemma UnassignedReadStats_round_trip:
  "UnassignedReadStats_from_dict (UnassignedReadStats_to_dict x) = Inr x"
  by (simp add: UnassignedReadStats_from_dict_def UnassignedReadStats_to_dict_def)

lemma QBCStripStats_round_trip:
  "QBCStripStats_from_dict (QBCStripStats_to_dict x) = Inr x"
  by (simp add: QBCStripStats_from_dict_def QBCStripStats_to_dict_def
        traverse_map_round_trip BiPartStats_round_trip UnassignedReadStats_round_trip)

lemma QBCTrashStripStats_round_trip:
  "QBCTrashStripStats_from_dict (QBCTrashStripStats_to_dict x) = Inr x"
  by (simp add: QBCTrashStripStats_from_dict_def QBCTrashStripStats_to_dict_def
        BinMatrixStats_round_trip)

lemma QBCStripStatsCollection_round_trip:
  "QBCStripStatsCollection_from_dicts (QBCStripStatsCollection_to_dicts xs) = Inr xs"
  by (simp add: QBCStripStatsCollection_from_dicts_def QBCStripStatsCollection_to_dicts_def
        traverse_map_round_trip QBCStripStats_round_trip)

lemma from_dict_if_not_None_round_trip:
  assumes "\<And>y. from_dict (to_dict y) = Inr y" and "\<And>y. to_dict y \<noteq> VNone"
    and "map_of kvs key = Some (to_dict_if_not_None to_dict x)"
  shows "from_dict_if_not_None from_dict (VDict kvs) key = Inr x"
  using assms by (cases x) (simp_all add: from_dict_if_not_None_def to_dict_if_not_None_def)

lemma QBCTrashStripStats_to_dict_not_None: "QBCTrashStripStats_to_dict y \<noteq> VNone"
  by (simp add: QBCTrashStripStats_to_dict_def)

lemma QBCProcessStats_round_trip:
  "QBCProcessStats_from_dict (QBCProcessStats_to_dict x) = Inr x"
  by (simp add: QBCProcessStats_from_dict_def QBCProcessStats_to_dict_def
        QBCStripStatsCollection_round_trip
        from_dict_if_not_None_round_trip [OF QBCTrashStripStats_round_trip
          QBCTrashStripStats_to_dict_not_None])

lemma HCAPreStripStatsCollection_round_trip:
  "HCAPreStripStatsCollection_from_dicts (HCAPreStripStatsCollection_to_dicts xs) = Inr xs"
  by (simp add: HCAPreStripStatsCollection_from_dicts_def HCAPreStripStatsCollection_to_dicts_def
        traverse_map_round_trip BinMatrixStats_round_trip)

lemma LowQualityHCAStripStats_round_trip:
  "LowQualityHCAStripStats_from_dict (LowQualityHCAStripStats_to_dict x) = Inr x"
  by (simp add: LowQualityHCAStripStats_from_dict_def LowQualityHCAStripStats_to_dict_def
        traverse_map_round_trip BinMatrixStats_round_trip)

lemma LowQualityHCAStripStatsCollection_round_trip:
  "LowQualityHCAStripStatsCollection_from_dicts
     (LowQualityHCAStripStatsCollection_to_dicts xs) = Inr xs"
  by (simp add: LowQualityHCAStripStatsCollection_from_dicts_def
        LowQualityHCAStripStatsCollection_to_dicts_def
        traverse_map_round_trip LowQualityHCAStripStats_round_trip)

lemma HCAStripStats_round_trip:
  "HCAStripStats_from_dict (HCAStripStats_to_dict x) = Inr x"
  by (simp add: HCAStripStats_from_dict_def HCAStripStats_to_dict_def
        traverse_map_round_trip BiPartStats_round_trip)

lemma HCAStripStatsCollection_round_trip:
  "HCAStripStatsCollection_from_dicts (HCAStripStatsCollection_to_dicts xs) = Inr xs"
  by (simp add: HCAStripStatsCollection_from_dicts_def HCAStripStatsCollection_to_dicts_def
        traverse_map_round_trip HCAStripStats_round_trip)

lemma HCAProcessStats_round_trip:
  "HCAProcessStats_from_dict (HCAProcessStats_to_dict x) = Inr x"
  by (simp add: HCAProcessStats_from_dict_def HCAProcessStats_to_dict_def
        HCAPreStripStatsCollection_round_trip LowQualityHCAStripStatsCollection_round_trip
        HCAStripStatsCollection_round_trip)

lemma PostProcessStats_round_trip:
  "PostProcessStats_from_dict (PostProcessStats_to_dict x) = Inr x"
  by (simp add: PostProcessStats_from_dict_def PostProcessStats_to_dict_def)

lemma LociWindowStats_round_trip:
  "LociWindowStats_from_dict (LociWindowStats_to_dict x) = Inr x"
  by (simp add: LociWindowStats_from_dict_def LociWindowStats_to_dict_def)

lemma HCAProcessStats_to_dict_not_None: "HCAProcessStats_to_dict y \<noteq> VNone"
  by (simp add: HCAProcessStats_to_dict_def)

lemma QBCProcessStats_to_dict_not_None: "QBCProcessStats_to_dict y \<noteq> VNone"
  by (simp add: QBCProcessStats_to_dict_def)

lemma PostProcessStats_to_dict_not_None: "PostProcessStats_to_dict y \<noteq> VNone"
  by (simp add: PostProcessStats_to_dict_def)

lemma LociWindowProcessStats_round_trip:
  "LociWindowProcessStats_from_dict (LociWindowProcessStats_to_dict x) = Inr x"
  by (simp add: LociWindowProcessStats_from_dict_def LociWindowProcessStats_to_dict_def
        LociWindowStats_round_trip
        from_dict_if_not_None_round_trip [OF HCAProcessStats_round_trip
          HCAProcessStats_to_dict_not_None]
        from_dict_if_not_None_round_trip [OF QBCProcessStats_round_trip
          QBCProcessStats_to_dict_not_None]
        from_dict_if_not_None_round_trip [OF PostProcessStats_round_trip
          PostProcessStats_to_dict_not_None])

lemma LociWindowStatsCollection_round_trip:
  "LociWindowStatsCollection_from_dicts (LociWindowStatsCollection_to_dicts xs) = Inr xs"
  by (simp add: LociWindowStatsCollection_from_dicts_def LociWindowStatsCollection_to_dicts_def
        traverse_map_round_trip LociWindowProcessStats_round_trip)

lemma ContigStats_round_trip:
  "ContigStats_from_dict (ContigStats_to_dict x) = Inr x"
  by (simp add: ContigStats_from_dict_def ContigStats_to_dict_def)

lemma ContigProcessStats_round_trip:
  "ContigProcessStats_from_dict (ContigProcessStats_to_dict x) = Inr x"
  by (simp add: ContigProcessStats_from_dict_def ContigProcessStats_to_dict_def
        ContigStats_round_trip LociWindowStatsCollection_round_trip)

lemma ContigProcessStatsCollection_round_trip:
  "ContigProcessStatsCollection_from_dicts (ContigProcessStatsCollection_to_dicts xs) = Inr xs"
  by (simp add: ContigProcessStatsCollection_from_dicts_def
        ContigProcessStatsCollection_to_dicts_def
        traverse_map_round_trip ContigProcessStats_round_trip)

lemma foldl_collection_append: "foldl collection_append ys xs = ys @ xs"
  by (induction xs arbitrary: ys) (simp_all add: collection_append_def)

section \<open>Properties of the matrix statistics, the optional fields and the decoding errors\<close>

lemma sum_list_indicator:
  "sum_list (map (\<lambda>x. if x = v then 1 else 0) col) = int (length (filter (\<lambda>x. x = v) col))"
  by (induction col) simp_all

lemma eq_sum_sum_count_cells: "eq_sum_sum df v = int (count_cells df v)"
proof -
  have "sum_list (map (\<lambda>col. sum_list (map (\<lambda>x. if x = v then 1 else 0) col)) cols)
        = int (length (filter (\<lambda>x. x = v) (concat cols)))" for cols :: "int list list"
    by (induction cols) (simp_all add: sum_list_indicator)
  then show ?thesis
    by (simp add: eq_sum_sum_def count_cells_def cells_def)
qed

lemma length_concat_uniform:
  "list_all (\<lambda>col. length col = n) cols \<Longrightarrow> length (concat cols) = n * length cols"
  by (induction cols) simp_all

lemma rectangular_length_cells:
  assumes "rectangular df"
  shows "length (cells df) = shape0 df * shape1 df"
proof -
  from assms have "list_all (\<lambda>col. length col = shape0 df) (df_columns df)"
    and "length (df_columns df) = shape1 df"
    by (simp_all add: rectangular_def)
  with length_concat_uniform [of "shape0 df" "df_columns df"] show ?thesis
    by (simp add: cells_def)
qed

lemma length_filter_three:
  "length (filter (\<lambda>x. x = (1::int)) xs) + length (filter (\<lambda>x. x = 0) xs)
     + length (filter (\<lambda>x. x \<noteq> 0 \<and> x \<noteq> 1) xs) = length xs"
  by (induction xs) auto

lemma boolean_no_other:
  "list_all (\<lambda>x. x = (0::int) \<or> x = 1) xs \<Longrightarrow> length (filter (\<lambda>x. x \<noteq> 0 \<and> x \<noteq> 1) xs) = 0"
  by (induction xs) auto

lemma non_boolean_some_other:
  "\<not> list_all (\<lambda>x. x = (0::int) \<or> x = 1) xs \<Longrightarrow> 0 < length (filter (\<lambda>x. x \<noteq> 0 \<and> x \<noteq> 1) xs)"
  by (induction xs) auto

lemma count_cells_boolean:
  assumes "rectangular df" and "boolean_frame df"
  shows "count_cells df 1 + count_cells df 0 = shape0 df * shape1 df"
proof -
  from assms(2) have "length (filter (\<lambda>x. x \<noteq> 0 \<and> x \<noteq> 1) (cells df)) = 0"
    unfolding boolean_frame_def by (rule boolean_no_other)
  with length_filter_three [of "cells df"] rectangular_length_cells [OF assms(1)]
  show ?thesis unfolding count_cells_def by linarith
qed

lemma count_cells_non_boolean:
  assumes "rectangular df" and "\<not> boolean_frame df"
  shows "count_cells df 1 + count_cells df 0 < shape0 df * shape1 df"
proof -
  from assms(2) have "0 < length (filter (\<lambda>x. x \<noteq> 0 \<and> x \<noteq> 1) (cells df))"
    unfolding boolean_frame_def by (rule non_boolean_some_other)
  with length_filter_three [of "cells df"] rectangular_length_cells [OF assms(1)]
  show ?thesis unfolding count_cells_def by linarith
qed

lemma from_bin_dataframe_nonempty:
  assumes "shape0 df * shape1 df \<noteq> 0"
  shows "from_bin_dataframe df =
     Inr \<lparr>bms_number_of_rows = VInt (int (shape0 df)),
          bms_number_of_columns = VInt (int (shape1 df)),
          bms_number_of_ones = VInt (int (count_cells df 1)),
          bms_number_of_zeros = VInt (int (count_cells df 0)),
          bms_density = VFloat (Fract (int (count_cells df 1)) (int (shape0 df * shape1 df))),
          bms_sparsity = VFloat (Fract (int (count_cells df 0)) (int (shape0 df * shape1 df)))\<rparr>"
  using assms by (simp add: from_bin_dataframe_def np_truediv_def eq_sum_sum_count_cells Let_def)

lemma from_bin_dataframe_quotients:
  "from_bin_dataframe df =
     Inr \<lparr>bms_number_of_rows = VInt (int (shape0 df)),
          bms_number_of_columns = VInt (int (shape1 df)),
          bms_number_of_ones = VInt (int (count_cells df 1)),
          bms_number_of_zeros = VInt (int (count_cells df 0)),
          bms_density =
            np_truediv (int (count_cells df 1)) (int (shape0 df) * int (shape1 df)),
          bms_sparsity =
            np_truediv (int (count_cells df 0)) (int (shape0 df) * int (shape1 df))\<rparr>"
  by (simp add: from_bin_dataframe_def eq_sum_sum_count_cells Let_def)

lemma count_cells_empty:
  assumes "rectangular df" and "shape0 df * shape1 df = 0"
  shows "count_cells df v = 0"
proof -
  from rectangular_length_cells [OF assms(1)] assms(2) have "cells df = []"
    by simp
  then show ?thesis
    by (simp add: count_cells_def)
qed

lemma and_then_eq_Inr:
  "and_then r f = Inr y \<longleftrightarrow> (\<exists>x. r = Inr x \<and> f x = Inr y)"
  by (cases r) simp_all

lemma from_dict_if_not_None_absent:
  assumes "from_dict_if_not_None from_dict d key = Inr r"
  shows "r = None \<longleftrightarrow> getitem d key = Inr VNone"
  using assms
  by (auto simp add: from_dict_if_not_None_def and_then_eq_Inr split: if_splits)

lemma LociWindowProcessStats_from_dict_fields:
  assumes "LociWindowProcessStats_from_dict d = Inr w"
  shows "from_dict_if_not_None HCAProcessStats_from_dict d ''hca_process_stats''
           = Inr (hca_process_stats w)"
    and "from_dict_if_not_None QBCProcessStats_from_dict d ''qbc_process_stats''
           = Inr (qbc_process_stats w)"
    and "from_dict_if_not_None PostProcessStats_from_dict d ''postprocess_stats''
           = Inr (postprocess_stats w)"
  using assms
  by (auto simp add: LociWindowProcessStats_from_dict_def and_then_eq_Inr)

lemma traverse_append_error:
  assumes "traverse f pre = Inr ys" and "f x = Inl e"
  shows "traverse f (pre @ x # post) = Inl e"
  using assms
proof (induction pre arbitrary: ys)
  case Nil
  then show ?case by simp
next
  case (Cons p pre)
  then show ?case by (cases "f p"; cases "traverse f pre") simp_all
qed

lemma traverse_error_anywhere:
  assumes "f x = Inl e"
  shows "\<exists>e'. traverse f (pre @ x # post) = Inl e'"
proof (induction pre)
  case Nil
  with assms show ?case by simp
next
  case (Cons p pre)
  then show ?case by (cases "f p") auto
qed

lemma ContigProcessStats_missing_contig_stats:
  "map_of kvs ''contig_stats'' = None \<Longrightarrow>
   ContigProcessStats_from_dict (VDict kvs) = Inl (KeyError ''contig_stats'')"
  by (simp add: ContigProcessStats_from_dict_def)

lemma ContigProcessStats_missing_contig_name:
  "map_of kvs ''contig_stats'' = Some (VDict cs) \<Longrightarrow> map_of cs ''contig_name'' = None \<Longrightarrow>
   ContigProcessStats_from_dict (VDict kvs) = Inl (KeyError ''contig_name'')"
  by (simp add: ContigProcessStats_from_dict_def ContigStats_from_dict_def)

lemma ContigProcessStats_missing_contig_length:
  "map_of kvs ''contig_stats'' = Some (VDict cs) \<Longrightarrow> map_of cs ''contig_name'' = Some n \<Longrightarrow>
   map_of cs ''contig_length'' = None \<Longrightarrow>
   ContigProcessStats_from_dict (VDict kvs) = Inl (KeyError ''contig_length'')"
  by (simp add: ContigProcessStats_from_dict_def ContigStats_from_dict_def)

lemma ContigProcessStats_missing_loci_windows_stats:
  "map_of kvs ''contig_stats'' = Some (VDict cs) \<Longrightarrow> map_of cs ''contig_name'' = Some n \<Longrightarrow>
   map_of cs ''contig_length'' = Some l \<Longrightarrow> map_of kvs ''loci_windows_stats'' = None \<Longrightarrow>
   ContigProcessStats_from_dict (VDict kvs) = Inl (KeyError ''loci_windows_stats'')"
  by (simp add: ContigProcessStats_from_dict_def ContigStats_from_dict_def)

section \<open>Properties stated by the specification\<close>

text \<open>
  \<^bold>\<open>C1\<close> (round trip). For every record of every class, converting it with \<^verbatim>\<open>to_dict\<close>
  (\<^verbatim>\<open>to_dicts\<close> for a collection) and converting the result back with \<^verbatim>\<open>from_dict\<close>
  (\<^verbatim>\<open>from_dicts\<close>) raises nothing and returns the same record: every field is equal and
  every list holds the same elements in the same order, neither reordered nor
  deduplicated. A collection filled by successive \<^verbatim>\<open>append\<close> calls comes back in the order
  of the calls. Equality is that of the field values; the Python classes define no
  \<^verbatim>\<open>__eq__\<close> of their own.
\<close>

theorem round_trip:
  "BinMatrixStats_from_dict (BinMatrixStats_to_dict bms) = Inr bms
   \<and> BiPartStats_from_dict (BiPartStats_to_dict bp) = Inr bp
   \<and> UnassignedReadStats_from_dict (UnassignedReadStats_to_dict ur) = Inr ur
   \<and> HCAPreStripStatsCollection_from_dicts (HCAPreStripStatsCollection_to_dicts pre) = Inr pre
   \<and> LowQualityHCAStripStats_from_dict (LowQualityHCAStripStats_to_dict lq) = Inr lq
   \<and> LowQualityHCAStripStatsCollection_from_dicts
        (LowQualityHCAStripStatsCollection_to_dicts lqs) = Inr lqs
   \<and> HCAStripStats_from_dict (HCAStripStats_to_dict hs) = Inr hs
   \<and> HCAStripStatsCollection_from_dicts (HCAStripStatsCollection_to_dicts hss) = Inr hss
   \<and> HCAProcessStats_from_dict (HCAProcessStats_to_dict hca) = Inr hca
   \<and> QBCStripStats_from_dict (QBCStripStats_to_dict qs) = Inr qs
   \<and> QBCTrashStripStats_from_dict (QBCTrashStripStats_to_dict tr) = Inr tr
   \<and> QBCStripStatsCollection_from_dicts (QBCStripStatsCollection_to_dicts qss) = Inr qss
   \<and> QBCProcessStats_from_dict (QBCProcessStats_to_dict qbc) = Inr qbc
   \<and> PostProcessStats_from_dict (PostProcessStats_to_dict pp) = Inr pp
   \<and> LociWindowStats_from_dict (LociWindowStats_to_dict lw) = Inr lw
   \<and> LociWindowProcessStats_from_dict (LociWindowProcessStats_to_dict lwp) = Inr lwp
   \<and> LociWindowStatsCollection_from_dicts (LociWindowStatsCollection_to_dicts lwps) = Inr lwps
   \<and> ContigStats_from_dict (ContigStats_to_dict cs) = Inr cs
   \<and> ContigProcessStats_from_dict (ContigProcessStats_to_dict cp) = Inr cp
   \<and> ContigProcessStatsCollection_from_dicts (ContigProcessStatsCollection_to_dicts cps) = Inr cps
   \<and> ContigProcessStatsCollection_from_dicts
        (ContigProcessStatsCollection_to_dicts (foldl collection_append [] appended))
       = Inr appended"
  by (simp only: BinMatrixStats_round_trip BiPartStats_round_trip UnassignedReadStats_round_trip
        HCAPreStripStatsCollection_round_trip LowQualityHCAStripStats_round_trip
        LowQualityHCAStripStatsCollection_round_trip HCAStripStats_round_trip
        HCAStripStatsCollection_round_trip HCAProcessStats_round_trip QBCStripStats_round_trip
        QBCTrashStripStats_round_trip QBCStripStatsCollection_round_trip
        QBCProcessStats_round_trip PostProcessStats_round_trip LociWindowStats_round_trip
        LociWindowProcessStats_round_trip LociWindowStatsCollection_round_trip
        ContigStats_round_trip ContigProcessStats_round_trip
        ContigProcessStatsCollection_round_trip foldl_collection_append append_Nil simp_thms)

theorem round_trip_witness:
  "ContigProcessStatsCollection_from_dicts
     (ContigProcessStatsCollection_to_dicts
        [\<lparr>contig_stats = \<lparr>contig_name = VStr ''ctg1'', contig_length = VInt 500\<rparr>,
          loci_windows_stats =
            [\<lparr>loci_window_stats = \<lparr>start_pos = VInt 0, stop_pos = VInt 99\<rparr>,
              hca_process_stats = None, qbc_process_stats = None,
              postprocess_stats =
                Some \<lparr>number_of_initial_haplotypes = VInt 3,
                      number_of_low_quality_haplotypes = VInt 1,
                      number_of_final_haplotypes = VInt 2\<rparr>\<rparr>]\<rparr>,
         \<lparr>contig_stats = \<lparr>contig_name = VStr ''ctg2'', contig_length = VInt 80\<rparr>,
          loci_windows_stats = []\<rparr>]) =
     Inr [\<lparr>contig_stats = \<lparr>contig_name = VStr ''ctg1'', contig_length = VInt 500\<rparr>,
           loci_windows_stats =
             [\<lparr>loci_window_stats = \<lparr>start_pos = VInt 0, stop_pos = VInt 99\<rparr>,
               hca_process_stats = None, qbc_process_stats = None,
               postprocess_stats =
                 Some \<lparr>number_of_initial_haplotypes = VInt 3,
                       number_of_low_quality_haplotypes = VInt 1,
                       number_of_final_haplotypes = VInt 2\<rparr>\<rparr>]\<rparr>,
          \<lparr>contig_stats = \<lparr>contig_name = VStr ''ctg2'', contig_length = VInt 80\<rparr>,
           loci_windows_stats = []\<rparr>]"
  using round_trip
    [where cps =
      "[\<lparr>contig_stats = \<lparr>contig_name = VStr ''ctg1'', contig_length = VInt 500\<rparr>,
          loci_windows_stats =
            [\<lparr>loci_window_stats = \<lparr>start_pos = VInt 0, stop_pos = VInt 99\<rparr>,
              hca_process_stats = None, qbc_process_stats = None,
              postprocess_stats =
                Some \<lparr>number_of_initial_haplotypes = VInt 3,
                      number_of_low_quality_haplotypes = VInt 1,
                      number_of_final_haplotypes = VInt 2\<rparr>\<rparr>]\<rparr>,
         \<lparr>contig_stats = \<lparr>contig_name = VStr ''ctg2'', contig_length = VInt 80\<rparr>,
          loci_windows_stats = []\<rparr>]"]
  by blast

text \<open>
  \<^bold>\<open>C2\<close> (absent, empty, populated). \<^verbatim>\<open>LociWindowProcessStats.to_dict\<close> always writes
  the three stage keys: under each the value is \<^verbatim>\<open>None\<close> when the field is \<^verbatim>\<open>None\<close> and
  the mapping of the bundle otherwise, and the mapping of a bundle, empty or not, is never
  \<^verbatim>\<open>None\<close>. Any combination \<open>a\<close>, \<open>b\<close>, \<open>c\<close> of absent and present fields comes back
  unchanged from a round trip, so the three fields vary independently and an empty bundle
  stays a bundle. On any node that \<^verbatim>\<open>from_dict\<close> accepts, a stage field is \<^verbatim>\<open>None\<close>
  exactly when the node holds \<^verbatim>\<open>None\<close> under its key.
\<close>

theorem optional_stage_fields:
  "getitem (LociWindowProcessStats_to_dict w) ''hca_process_stats'' =
     Inr (case hca_process_stats w of None \<Rightarrow> VNone | Some h \<Rightarrow> HCAProcessStats_to_dict h)
   \<and> getitem (LociWindowProcessStats_to_dict w) ''qbc_process_stats'' =
     Inr (case qbc_process_stats w of None \<Rightarrow> VNone | Some q \<Rightarrow> QBCProcessStats_to_dict q)
   \<and> getitem (LociWindowProcessStats_to_dict w) ''postprocess_stats'' =
     Inr (case postprocess_stats w of None \<Rightarrow> VNone | Some p \<Rightarrow> PostProcessStats_to_dict p)
   \<and> HCAProcessStats_to_dict h \<noteq> VNone
   \<and> QBCProcessStats_to_dict q \<noteq> VNone
   \<and> PostProcessStats_to_dict p \<noteq> VNone
   \<and> LociWindowProcessStats_from_dict
        (LociWindowProcessStats_to_dict
           \<lparr>loci_window_stats = lw, hca_process_stats = a,
            qbc_process_stats = b, postprocess_stats = c\<rparr>) =
       Inr \<lparr>loci_window_stats = lw, hca_process_stats = a,
            qbc_process_stats = b, postprocess_stats = c\<rparr>
   \<and> (LociWindowProcessStats_from_dict d = Inr w' \<longrightarrow>
        (hca_process_stats w' = None \<longleftrightarrow> getitem d ''hca_process_stats'' = Inr VNone)
        \<and> (qbc_process_stats w' = None \<longleftrightarrow> getitem d ''qbc_process_stats'' = Inr VNone)
        \<and> (postprocess_stats w' = None \<longleftrightarrow> getitem d ''postprocess_stats'' = Inr VNone))"
proof -
  have enc: "getitem (LociWindowProcessStats_to_dict w) ''hca_process_stats'' =
       Inr (case hca_process_stats w of None \<Rightarrow> VNone | Some h \<Rightarrow> HCAProcessStats_to_dict h)"
    "getitem (LociWindowProcessStats_to_dict w) ''qbc_process_stats'' =
       Inr (case qbc_process_stats w of None \<Rightarrow> VNone | Some q \<Rightarrow> QBCProcessStats_to_dict q)"
    "getitem (LociWindowProcessStats_to_dict w) ''postprocess_stats'' =
       Inr (case postprocess_stats w of None \<Rightarrow> VNone | Some p \<Rightarrow> PostProcessStats_to_dict p)"
    by (simp_all add: LociWindowProcessStats_to_dict_def to_dict_if_not_None_def)
  have dec: "(hca_process_stats w' = None \<longleftrightarrow> getitem d ''hca_process_stats'' = Inr VNone)
        \<and> (qbc_process_stats w' = None \<longleftrightarrow> getitem d ''qbc_process_stats'' = Inr VNone)
        \<and> (postprocess_stats w' = None \<longleftrightarrow> getitem d ''postprocess_stats'' = Inr VNone)"
    if "LociWindowProcessStats_from_dict d = Inr w'"
    using LociWindowProcessStats_from_dict_fields [OF that]
    by (simp add: from_dict_if_not_None_absent)
  have nn: "HCAProcessStats_to_dict h \<noteq> VNone" "QBCProcessStats_to_dict q \<noteq> VNone"
    "PostProcessStats_to_dict p \<noteq> VNone"
    by (rule HCAProcessStats_to_dict_not_None, rule QBCProcessStats_to_dict_not_None,
        rule PostProcessStats_to_dict_not_None)
  have rt: "LociWindowProcessStats_from_dict
        (LociWindowProcessStats_to_dict
           \<lparr>loci_window_stats = lw, hca_process_stats = a,
            qbc_process_stats = b, postprocess_stats = c\<rparr>) =
       Inr \<lparr>loci_window_stats = lw, hca_process_stats = a,
            qbc_process_stats = b, postprocess_stats = c\<rparr>"
    by (rule LociWindowProcessStats_round_trip)
  from enc nn rt dec show ?thesis
    by blast
qed

theorem optional_stage_fields_witness:
  "LociWindowProcessStats_from_dict
     (VDict [(''loci_window_stats'', VDict [(''start_pos'', VInt 0), (''stop_pos'', VInt 9)]),
             (''hca_process_stats'', VNone),
             (''qbc_process_stats'',
                VDict [(''high_quality_strips_stats'', VList []), (''trash_strip_stats'', VNone)]),
             (''postprocess_stats'', VNone)]) =
     Inr \<lparr>loci_window_stats = \<lparr>start_pos = VInt 0, stop_pos = VInt 9\<rparr>,
          hca_process_stats = None,
          qbc_process_stats =
            Some \<lparr>qbc_high_quality_strips_stats = [], qbc_trash_strip_stats = None\<rparr>,
          postprocess_stats = None\<rparr>
   \<and> hca_process_stats
        \<lparr>loci_window_stats = \<lparr>start_pos = VInt 0, stop_pos = VInt 9\<rparr>,
         hca_process_stats = None,
         qbc_process_stats =
           Some \<lparr>qbc_high_quality_strips_stats = [], qbc_trash_strip_stats = None\<rparr>,
         postprocess_stats = None\<rparr> = None
   \<and> qbc_process_stats
        \<lparr>loci_window_stats = \<lparr>start_pos = VInt 0, stop_pos = VInt 9\<rparr>,
         hca_process_stats = None,
         qbc_process_stats =
           Some \<lparr>qbc_high_quality_strips_stats = [], qbc_trash_strip_stats = None\<rparr>,
         postprocess_stats = None\<rparr> \<noteq> None"
  using optional_stage_fields
    [where d = "VDict [(''loci_window_stats'',
                          VDict [(''start_pos'', VInt 0), (''stop_pos'', VInt 9)]),
             (''hca_process_stats'', VNone),
             (''qbc_process_stats'',
                VDict [(''high_quality_strips_stats'', VList []), (''trash_strip_stats'', VNone)]),
             (''postprocess_stats'', VNone)]"
       and w' = "\<lparr>loci_window_stats = \<lparr>start_pos = VInt 0, stop_pos = VInt 9\<rparr>,
          hca_process_stats = None,
          qbc_process_stats =
            Some \<lparr>qbc_high_quality_strips_stats = [], qbc_trash_strip_stats = None\<rparr>,
          postprocess_stats = None\<rparr>"]
  by (simp add: LociWindowProcessStats_from_dict_def LociWindowStats_from_dict_def
        from_dict_if_not_None_def QBCProcessStats_from_dict_def
        QBCStripStatsCollection_from_dicts_def)

text \<open>
  \<^bold>\<open>C3\<close> (division in \<^verbatim>\<open>from_bin_dataframe\<close>), as stated: the function never raises a
  division error, because it treats the empty matrix apart instead of dividing by zero.
  The function has no such case. On a frame of no row and three columns it returns the
  record whose density and sparsity are the result of dividing 0 by
  \<open>number_of_cells = 0\<close>, which is not-a-number.
\<close>

theorem from_bin_dataframe_empty_counterexample:
  "from_bin_dataframe \<lparr>shape0 = 0, shape1 = 3, df_columns = [[], [], []]\<rparr> =
     Inr \<lparr>bms_number_of_rows = VInt 0, bms_number_of_columns = VInt 3,
          bms_number_of_ones = VInt 0, bms_number_of_zeros = VInt 0,
          bms_density = np_truediv 0 (0 * 3), bms_sparsity = np_truediv 0 (0 * 3)\<rparr>
   \<and> np_truediv 0 (0 * 3) = VNaN"
  by (simp add: from_bin_dataframe_def eq_sum_sum_def np_truediv_def Let_def)

text \<open>
  \<^bold>\<open>C3\<close>, amended: \<^verbatim>\<open>from_bin_dataframe\<close> raises no division error on any frame, and
  it has no special case for the empty matrix. For every frame it returns the record whose
  density and sparsity are the counts divided by rows times columns with NumPy's
  division; when rows times columns is zero that division is by zero and both are
  not-a-number.
\<close>

theorem from_bin_dataframe_division:
  "(\<exists>stats. from_bin_dataframe df = Inr stats
      \<and> bms_density stats =
          np_truediv (int (count_cells df 1)) (int (shape0 df) * int (shape1 df))
      \<and> bms_sparsity stats =
          np_truediv (int (count_cells df 0)) (int (shape0 df) * int (shape1 df)))
   \<and> (rectangular df \<and> shape0 df * shape1 df = 0 \<longrightarrow>
        (\<exists>stats. from_bin_dataframe df = Inr stats
           \<and> bms_density stats = VNaN \<and> bms_sparsity stats = VNaN))"
proof -
  have "np_truediv (int (count_cells df v)) (int (shape0 df) * int (shape1 df)) = VNaN"
    if "rectangular df" and "shape0 df * shape1 df = 0" for v
    using count_cells_empty [OF that, of v] that(2) by (auto simp add: np_truediv_def)
  then show ?thesis
    by (simp add: from_bin_dataframe_quotients)
qed

theorem from_bin_dataframe_division_witness:
  "rectangular \<lparr>shape0 = 0, shape1 = 1, df_columns = [[]]\<rparr>
   \<and> shape0 \<lparr>shape0 = 0, shape1 = 1, df_columns = [[]]\<rparr>
       * shape1 \<lparr>shape0 = 0, shape1 = 1, df_columns = [[]]\<rparr> = 0
   \<and> (\<exists>stats. from_bin_dataframe \<lparr>shape0 = 0, shape1 = 1, df_columns = [[]]\<rparr> = Inr stats
         \<and> bms_density stats = VNaN \<and> bms_sparsity stats = VNaN)"
  using from_bin_dataframe_division [of "\<lparr>shape0 = 0, shape1 = 1, df_columns = [[]]\<rparr>"]
  by (simp add: rectangular_def)

text \<open>
  \<^bold>\<open>C4\<close> (matrix statistics). For a rectangular frame of \<open>r\<close> rows and \<open>c\<close> columns
  whose cells are all 0 or 1, with \<open>k\<close> cells equal to 1 and \<open>r * c > 0\<close>,
  \<^verbatim>\<open>from_bin_dataframe\<close> returns the record with rows \<open>r\<close>, columns \<open>c\<close>, ones \<open>k\<close>,
  zeros \<open>r * c - k\<close>, density \<open>k / (r * c)\<close> and sparsity \<open>(r * c - k) / (r * c)\<close>.
  The quotients are exact; Python stores the nearest float. The witness is the matrix of
  4 rows and 3 columns with 5 cells equal to 1.
\<close>

theorem from_bin_dataframe_boolean:
  assumes "rectangular df" and "boolean_frame df" and "0 < shape0 df * shape1 df"
  shows "from_bin_dataframe df =
     Inr \<lparr>bms_number_of_rows = VInt (int (shape0 df)),
          bms_number_of_columns = VInt (int (shape1 df)),
          bms_number_of_ones = VInt (int (count_cells df 1)),
          bms_number_of_zeros = VInt (int (shape0 df * shape1 df) - int (count_cells df 1)),
          bms_density = VFloat (Fract (int (count_cells df 1)) (int (shape0 df * shape1 df))),
          bms_sparsity =
            VFloat (Fract (int (shape0 df * shape1 df) - int (count_cells df 1))
                          (int (shape0 df * shape1 df)))\<rparr>"
proof -
  have "int (count_cells df 0) = int (shape0 df * shape1 df) - int (count_cells df 1)"
    using count_cells_boolean [OF assms(1,2)] by linarith
  with from_bin_dataframe_nonempty [of df] assms(3) show ?thesis
    by simp
qed

theorem from_bin_dataframe_boolean_witness:
  "from_bin_dataframe
     \<lparr>shape0 = 4, shape1 = 3, df_columns = [[1, 1, 0, 0], [1, 0, 0, 1], [0, 0, 1, 0]]\<rparr> =
     Inr \<lparr>bms_number_of_rows = VInt 4, bms_number_of_columns = VInt 3,
          bms_number_of_ones = VInt 5, bms_number_of_zeros = VInt 7,
          bms_density = VFloat (Fract 5 12), bms_sparsity = VFloat (Fract 7 12)\<rparr>"
  using from_bin_dataframe_boolean
    [of "\<lparr>shape0 = 4, shape1 = 3, df_columns = [[1, 1, 0, 0], [1, 0, 0, 1], [0, 0, 1, 0]]\<rparr>"]
  by (simp add: rectangular_def boolean_frame_def cells_def count_cells_def)

text \<open>
  \<^bold>\<open>C5\<close> (missing key of a contig node). \<^verbatim>\<open>ContigProcessStats.from_dict\<close> raises the
  \<^verbatim>\<open>KeyError\<close> that names the first missing key among \<^verbatim>\<open>contig_stats\<close>,
  \<^verbatim>\<open>contig_name\<close>, \<^verbatim>\<open>contig_length\<close> and \<^verbatim>\<open>loci_windows_stats\<close>. For the three keys of
  the contig statistics this holds whatever the node holds under \<^verbatim>\<open>loci_windows_stats\<close>:
  the windows are not yet read. A contig node that raises makes
  \<^verbatim>\<open>ContigProcessStatsCollection.from_dicts\<close> raise for the whole document, with the same
  exception when the nodes before it are accepted; no list of the contigs read so far is
  returned.
\<close>

theorem missing_contig_key:
  "(map_of kvs ''contig_stats'' = None \<longrightarrow>
      ContigProcessStats_from_dict (VDict kvs) = Inl (KeyError ''contig_stats''))
   \<and> (map_of kvs ''contig_stats'' = Some (VDict cs) \<and> map_of cs ''contig_name'' = None \<longrightarrow>
      ContigProcessStats_from_dict (VDict kvs) = Inl (KeyError ''contig_name''))
   \<and> (map_of kvs ''contig_stats'' = Some (VDict cs) \<and> map_of cs ''contig_name'' = Some n
        \<and> map_of cs ''contig_length'' = None \<longrightarrow>
      ContigProcessStats_from_dict (VDict kvs) = Inl (KeyError ''contig_length''))
   \<and> (map_of kvs ''contig_stats'' = Some (VDict cs) \<and> map_of cs ''contig_name'' = Some n
        \<and> map_of cs ''contig_length'' = Some l \<and> map_of kvs ''loci_windows_stats'' = None \<longrightarrow>
      ContigProcessStats_from_dict (VDict kvs) = Inl (KeyError ''loci_windows_stats''))
   \<and> (ContigProcessStats_from_dict node = Inl e \<longrightarrow>
        (\<exists>e'. ContigProcessStatsCollection_from_dicts (VList (before @ node # after)) = Inl e')
        \<and> (traverse ContigProcessStats_from_dict before = Inr decoded \<longrightarrow>
             ContigProcessStatsCollection_from_dicts (VList (before @ node # after)) = Inl e))"
proof -
  have doc: "(\<exists>e'. ContigProcessStatsCollection_from_dicts (VList (before @ node # after)) = Inl e')
        \<and> (traverse ContigProcessStats_from_dict before = Inr decoded \<longrightarrow>
             ContigProcessStatsCollection_from_dicts (VList (before @ node # after)) = Inl e)"
    if "ContigProcessStats_from_dict node = Inl e"
    using traverse_error_anywhere
        [where f = ContigProcessStats_from_dict and x = node and e = e
           and pre = before and post = after]
      traverse_append_error
        [where f = ContigProcessStats_from_dict and x = node and e = e
           and pre = before and post = after and ys = decoded]
      that
    by (simp add: ContigProcessStatsCollection_from_dicts_def)
  show ?thesis
    using ContigProcessStats_missing_contig_stats [of kvs]
      ContigProcessStats_missing_contig_name [of kvs cs]
      ContigProcessStats_missing_contig_length [of kvs cs n]
      ContigProcessStats_missing_loci_windows_stats [of kvs cs n l] doc
    by blast
qed

theorem missing_contig_key_witness:
  "ContigProcessStats_from_dict
     (VDict [(''contig_stats'', VDict [(''contig_name'', VStr ''ctg1'')]),
             (''loci_windows_stats'', VList [VInt 7])]) = Inl (KeyError ''contig_length'')
   \<and> ContigProcessStatsCollection_from_dicts
       (VList [VDict [(''contig_stats'',
                         VDict [(''contig_name'', VStr ''ctg0''), (''contig_length'', VInt 5)]),
                      (''loci_windows_stats'', VList [])],
               VDict [(''contig_stats'', VDict [(''contig_name'', VStr ''ctg1'')]),
                      (''loci_windows_stats'', VList [VInt 7])],
               VDict []]) = Inl (KeyError ''contig_length'')"
  using missing_contig_key
    [where kvs = "[(''contig_stats'', VDict [(''contig_name'', VStr ''ctg1'')]),
                   (''loci_windows_stats'', VList [VInt 7])]"
       and cs = "[(''contig_name'', VStr ''ctg1'')]" and n = "VStr ''ctg1''"
       and node = "VDict [(''contig_stats'', VDict [(''contig_name'', VStr ''ctg1'')]),
                          (''loci_windows_stats'', VList [VInt 7])]"
       and e = "KeyError ''contig_length''"
       and before = "[VDict [(''contig_stats'',
                         VDict [(''contig_name'', VStr ''ctg0''), (''contig_length'', VInt 5)]),
                      (''loci_windows_stats'', VList [])]]"
       and decoded = "[\<lparr>contig_stats = \<lparr>contig_name = VStr ''ctg0'', contig_length = VInt 5\<rparr>,
                        loci_windows_stats = []\<rparr>]"
       and after = "[VDict []]"]
  by (simp add: ContigProcessStats_from_dict_def ContigStats_from_dict_def
        LociWindowStatsCollection_from_dicts_def)

text \<open>
  \<^bold>\<open>C6\<close> (key order). The mapping that \<^verbatim>\<open>to_dict\<close> returns lists its keys in the order
  in which the method writes them, for every class. For \<^verbatim>\<open>BinMatrixStats\<close> and
  \<^verbatim>\<open>LociWindowProcessStats\<close> that order is not the alphabetical one.
\<close>

theorem to_dict_key_order:
  "dict_keys (BinMatrixStats_to_dict bms) =
     [''number_of_rows'', ''number_of_columns'', ''number_of_ones'', ''number_of_zeros'',
      ''density'', ''sparsity'']
   \<and> dict_keys (BiPartStats_to_dict bp) = [''index'', ''class'', ''binmatrix_stats'']
   \<and> dict_keys (UnassignedReadStats_to_dict ur) =
       [''read_id'', ''number_of_ones'', ''number_of_zeros'']
   \<and> dict_keys (LowQualityHCAStripStats_to_dict lq) =
       [''strip_number'', ''number_of_columns'', ''bin_matrices_stats'']
   \<and> dict_keys (HCAStripStats_to_dict hs) = [''index'', ''number_of_columns'', ''bipart_stats'']
   \<and> dict_keys (HCAProcessStats_to_dict hca) =
       [''low_quality_prestrips_stats'', ''high_quality_prestrips_stats'',
        ''low_quality_hca_strip_stats'', ''high_quality_hca_strip_stats'']
   \<and> dict_keys (QBCStripStats_to_dict qs) =
       [''index'', ''number_of_columns'', ''bipart_stats'', ''unassigned_reads'']
   \<and> dict_keys (QBCTrashStripStats_to_dict tr) = [''index'', ''matrix_stats'']
   \<and> dict_keys (QBCProcessStats_to_dict qbc) =
       [''high_quality_strips_stats'', ''trash_strip_stats'']
   \<and> dict_keys (PostProcessStats_to_dict pp) =
       [''number_of_initial_haplotypes'', ''number_of_low_quality_haplotypes'',
        ''number_of_final_haplotypes'']
   \<and> dict_keys (LociWindowStats_to_dict lw) = [''start_pos'', ''stop_pos'']
   \<and> dict_keys (LociWindowProcessStats_to_dict lwp) =
       [''loci_window_stats'', ''hca_process_stats'', ''qbc_process_stats'',
        ''postprocess_stats'']
   \<and> dict_keys (ContigStats_to_dict cs) = [''contig_name'', ''contig_length'']
   \<and> dict_keys (ContigProcessStats_to_dict cp) = [''contig_stats'', ''loci_windows_stats'']
   \<and> \<not> sorted (dict_keys (BinMatrixStats_to_dict bms))
   \<and> \<not> sorted (dict_keys (LociWindowProcessStats_to_dict lwp))"
  by (simp add: BinMatrixStats_to_dict_def BiPartStats_to_dict_def
        UnassignedReadStats_to_dict_def LowQualityHCAStripStats_to_dict_def
        HCAStripStats_to_dict_def HCAProcessStats_to_dict_def QBCStripStats_to_dict_def
        QBCTrashStripStats_to_dict_def QBCProcessStats_to_dict_def PostProcessStats_to_dict_def
        LociWindowStats_to_dict_def LociWindowProcessStats_to_dict_def ContigStats_to_dict_def
        ContigProcessStats_to_dict_def)

text \<open>
  \<^bold>\<open>C7\<close> (no correction on decode). \<^verbatim>\<open>BinMatrixStats.from_dict\<close> accepts every mapping
  that holds the six keys and returns the record of exactly the six values found, whether
  or not the counts add up to rows times columns. The witness is a node with
  \<open>1 + 1 \<noteq> 2 * 2\<close>.
\<close>

theorem from_dict_keeps_node_values:
  assumes "map_of kvs ''number_of_rows'' = Some r"
    and "map_of kvs ''number_of_columns'' = Some c"
    and "map_of kvs ''number_of_ones'' = Some n1"
    and "map_of kvs ''number_of_zeros'' = Some n0"
    and "map_of kvs ''density'' = Some d"
    and "map_of kvs ''sparsity'' = Some s"
  shows "BinMatrixStats_from_dict (VDict kvs) =
           Inr \<lparr>bms_number_of_rows = r, bms_number_of_columns = c,
                bms_number_of_ones = n1, bms_number_of_zeros = n0,
                bms_density = d, bms_sparsity = s\<rparr>"
  using assms by (simp add: BinMatrixStats_from_dict_def)

theorem from_dict_keeps_node_values_witness:
  "(1::int) + 1 \<noteq> 2 * 2
   \<and> BinMatrixStats_from_dict
        (VDict [(''number_of_rows'', VInt 2), (''number_of_columns'', VInt 2),
                (''number_of_ones'', VInt 1), (''number_of_zeros'', VInt 1),
                (''density'', VFloat (Fract 1 4)), (''sparsity'', VFloat (Fract 1 4))]) =
       Inr \<lparr>bms_number_of_rows = VInt 2, bms_number_of_columns = VInt 2,
            bms_number_of_ones = VInt 1, bms_number_of_zeros = VInt 1,
            bms_density = VFloat (Fract 1 4), bms_sparsity = VFloat (Fract 1 4)\<rparr>"
  using from_dict_keeps_node_values
    [of "[(''number_of_rows'', VInt 2), (''number_of_columns'', VInt 2),
          (''number_of_ones'', VInt 1), (''number_of_zeros'', VInt 1),
          (''density'', VFloat (Fract 1 4)), (''sparsity'', VFloat (Fract 1 4))]"
        "VInt 2" "VInt 2" "VInt 1" "VInt 1" "VFloat (Fract 1 4)" "VFloat (Fract 1 4)"]
  by simp

text \<open>
  \<^bold>\<open>C8\<close> (complement). \<^verbatim>\<open>BiPartClass.complement\<close> returns \<^verbatim>\<open>ONE\<close> for \<^verbatim>\<open>ZERO\<close> and
  \<^verbatim>\<open>ZERO\<close> for \<^verbatim>\<open>ONE\<close>, raises for neither, and applied twice returns the class it started
  from. It is a function of the class alone: there is no state for it to change.
\<close>

theorem complement_involution:
  "complement ZERO = Inr ONE \<and> complement ONE = Inr ZERO
   \<and> and_then (complement c) complement = Inr c"
  by (cases c) (simp_all add: complement_def BiPartClass_call_def)

text \<open>
  \<^bold>\<open>C9\<close> (\<^verbatim>\<open>set_number_of_columns\<close>). After \<^verbatim>\<open>s.set_number_of_columns(n)\<close> on an
  \<^verbatim>\<open>HCAStripStats\<close> or a \<^verbatim>\<open>QBCStripStats\<close>, the number of columns is \<open>n\<close> and the index,
  the bi-partitions and (for \<^verbatim>\<open>QBCStripStats\<close>) the unassigned reads are what they were.
\<close>

theorem set_number_of_columns_frame:
  "hcas_number_of_columns (HCAStripStats_set_number_of_columns hs (VInt n)) = VInt n
   \<and> hcas_index (HCAStripStats_set_number_of_columns hs (VInt n)) = hcas_index hs
   \<and> hcas_bipart_stats (HCAStripStats_set_number_of_columns hs (VInt n)) = hcas_bipart_stats hs
   \<and> qbcs_number_of_columns (QBCStripStats_set_number_of_columns qs (VInt n)) = VInt n
   \<and> qbcs_index (QBCStripStats_set_number_of_columns qs (VInt n)) = qbcs_index qs
   \<and> qbcs_bipart_stats (QBCStripStats_set_number_of_columns qs (VInt n)) = qbcs_bipart_stats qs
   \<and> qbcs_unassigned_reads (QBCStripStats_set_number_of_columns qs (VInt n))
       = qbcs_unassigned_reads qs"
  by (simp add: HCAStripStats_set_number_of_columns_def QBCStripStats_set_number_of_columns_def)

text \<open>
  \<^bold>\<open>C10\<close> (cells other than 0 and 1). \<^verbatim>\<open>from_bin_dataframe\<close> counts as ones the cells
  equal to 1 and as zeros the cells equal to 0. On a rectangular frame with a cell that is
  neither, the record it returns has ones plus zeros below rows times columns and density
  plus sparsity below 1 (as exact quotients).
\<close>

theorem from_bin_dataframe_non_binary:
  assumes "rectangular df" and "\<not> boolean_frame df"
  shows "from_bin_dataframe df =
     Inr \<lparr>bms_number_of_rows = VInt (int (shape0 df)),
          bms_number_of_columns = VInt (int (shape1 df)),
          bms_number_of_ones = VInt (int (count_cells df 1)),
          bms_number_of_zeros = VInt (int (count_cells df 0)),
          bms_density = VFloat (Fract (int (count_cells df 1)) (int (shape0 df * shape1 df))),
          bms_sparsity = VFloat (Fract (int (count_cells df 0)) (int (shape0 df * shape1 df)))\<rparr>
   \<and> int (count_cells df 1) + int (count_cells df 0) < int (shape0 df) * int (shape1 df)
   \<and> Fract (int (count_cells df 1)) (int (shape0 df * shape1 df))
       + Fract (int (count_cells df 0)) (int (shape0 df * shape1 df)) < 1"
proof -
  let ?n = "shape0 df * shape1 df"
  have lt: "count_cells df 1 + count_cells df 0 < ?n"
    using count_cells_non_boolean [OF assms] .
  then have pos: "?n \<noteq> 0" by linarith
  then have ipos: "0 < int ?n" by simp
  have "Fract (int (count_cells df 1)) (int ?n) + Fract (int (count_cells df 0)) (int ?n)
        = Fract (int (count_cells df 1) + int (count_cells df 0)) (int ?n)"
    by (simp only: Fract_of_int_quotient of_int_add add_divide_distrib)
  also have "\<dots> < 1"
    using lt Fract_less_one_iff [OF ipos] by (metis of_nat_add of_nat_less_iff)
  finally have r: "Fract (int (count_cells df 1)) (int ?n)
        + Fract (int (count_cells df 0)) (int ?n) < 1" .
  from lt have "int (count_cells df 1) + int (count_cells df 0) < int (shape0 df) * int (shape1 df)"
    by (metis of_nat_add of_nat_less_iff of_nat_mult)
  with from_bin_dataframe_nonempty [OF pos] r show ?thesis by simp
qed

theorem from_bin_dataframe_non_binary_witness:
  "from_bin_dataframe \<lparr>shape0 = 2, shape1 = 2, df_columns = [[1, 2], [0, 1]]\<rparr> =
     Inr \<lparr>bms_number_of_rows = VInt 2, bms_number_of_columns = VInt 2,
          bms_number_of_ones = VInt 2, bms_number_of_zeros = VInt 1,
          bms_density = VFloat (Fract 2 4), bms_sparsity = VFloat (Fract 1 4)\<rparr>
   \<and> (2::int) + 1 < 2 * 2 \<and> Fract 2 4 + Fract 1 4 < 1"
  using from_bin_dataframe_non_binary
    [of "\<lparr>shape0 = 2, shape1 = 2, df_columns = [[1, 2], [0, 1]]\<rparr>"]
  by (simp add: rectangular_def boolean_frame_def cells_def count_cells_def)

end
